theory Spec2Isabelle
  imports Complex_Main "HOL-Library.Multiset"
begin

section \<open>Data model\<close>

text \<open>
  The dashboard reads one month of taxi trips from a remote parquet file and a zone lookup
  table from a remote CSV file. Both are inputs of the model: the trip file is a list of
  rows (\<open>trip list\<close>), the zone table a list of \<open>zone\<close> rows. Every column is nullable,
  as in the parquet and CSV sources, so a cell is an \<open>option\<close> (\<open>None\<close> is SQL NULL in
  DuckDB and NaN/NaT in pandas).

  A timestamp is the number of microseconds since 1970-01-01T00:00:00 (the resolution of a
  DuckDB TIMESTAMP), without time zone. Distances and amounts are real numbers; the
  not-a-number values of floating point are outside the model.
\<close>

type_synonym timestamp = int

text \<open>The nine columns named in the SELECT list of \<open>get_filtered_df\<close> (newapp.py).\<close>

record raw_row =
  tpep_pickup_datetime :: "timestamp option"
  tpep_dropoff_datetime :: "timestamp option"
  PULocationID :: "int option"
  DOLocationID :: "int option"
  trip_distance :: "real option"
  fare_amount :: "real option"
  tip_amount :: "real option"
  total_amount :: "real option"
  payment_type :: "int option"

text \<open>
  A row of the remote trip file, restricted to the columns that either program reads:
  the nine above and \<open>passenger_count\<close>, which only \<open>load_data\<close> (app.py) selects.
\<close>

record trip = raw_row +
  passenger_count :: "int option"

text \<open>The two columns of the zone table that the programs use.\<close>

record zone =
  LocationID :: "int option"
  Zone :: "string option"

text \<open>
  The frame returned by \<open>get_filtered_df\<close>: the selected columns, the derived columns, and
  the two columns brought in by the merge (\<open>LocationID\<close>, and \<open>Zone\<close> renamed to
  \<open>pickup_zone\<close>). \<open>pickup_day_of_week\<close> holds the code of a pandas Categorical: the
  position of the value in the category list, \<open>None\<close> for a value outside the categories.
  \<open>pickup_date\<close> is a calendar date, kept as the number of days since 1970-01-01.
\<close>

record derived_row = raw_row +
  trip_duration_minutes :: "real option"
  pickup_hour :: "int option"
  pickup_day_of_week :: "nat option"
  pickup_date :: "int option"
  LocationID :: "int option"
  pickup_zone :: "string option"
  payment_label :: string

text \<open>The frame built by \<open>load_data\<close> (app.py) has two more columns.\<close>

record app_row = derived_row +
  passenger_count :: "int option"
  trip_speed_mph :: "real option"

text \<open>A pandas DataFrame: its column names, in order, and its rows.\<close>

record 'r dataframe =
  columns :: "string list"
  rows :: "'r list"

section \<open>Payment labels\<close>

text \<open>\<open>PAYMENT_MAP\<close> is a dict literal; \<open>PAYMENT_MAP_items\<close> lists its items in source order.\<close>

definition PAYMENT_MAP_items :: "(int \<times> string) list" where
  "PAYMENT_MAP_items =
     [(1, ''Credit Card''), (2, ''Cash''), (3, ''No Charge''),
      (4, ''Dispute''), (5, ''Unknown''), (6, ''Voided Trip'')]"

definition PAYMENT_MAP :: "int \<rightharpoonup> string" where
  "PAYMENT_MAP = map_of PAYMENT_MAP_items"

text \<open>
  \<open>LABEL_TO_CODE = {v: k for k, v in PAYMENT_MAP.items()}\<close>. A dict comprehension keeps the
  last value written for a key, \<open>map_of\<close> the first pair found, hence the \<open>rev\<close>.
\<close>

definition LABEL_TO_CODE :: "string \<rightharpoonup> int" where
  "LABEL_TO_CODE = map_of (rev (map (\<lambda>(k, v). (v, k)) PAYMENT_MAP_items))"

text \<open>
  \<open>df["payment_type"].map(PAYMENT_MAP).fillna("Other/Missing")\<close>: a code that is not a key
  of the dict, and a missing code, both map to NaN, which \<open>fillna\<close> replaces.
\<close>

definition payment_label_of :: "int option \<Rightarrow> string" where
  "payment_label_of code =
     (case code of
        None \<Rightarrow> ''Other/Missing''
      | Some c \<Rightarrow> (case PAYMENT_MAP c of None \<Rightarrow> ''Other/Missing'' | Some l \<Rightarrow> l))"

text \<open>\<open>[LABEL_TO_CODE[p] for p in payment_labels if p in LABEL_TO_CODE]\<close>\<close>

definition resolve_payment_codes :: "string list \<Rightarrow> int list" where
  "resolve_payment_codes payment_labels = List.map_filter LABEL_TO_CODE payment_labels"

section \<open>Zone resolution\<close>

text \<open>\<open>Series.unique()\<close>: the distinct values in order of first appearance.\<close>

fun unique_from :: "'a list \<Rightarrow> 'a list \<Rightarrow> 'a list" where
  "unique_from seen [] = []"
| "unique_from seen (x # xs) =
     (if x \<in> set seen then unique_from seen xs else x # unique_from (x # seen) xs)"

definition unique :: "'a list \<Rightarrow> 'a list" where
  "unique xs = unique_from [] xs"

text \<open>
  \<open>Series.isin(values)\<close> on one cell: a missing cell is in no list of strings.
\<close>

definition isin :: "'a option \<Rightarrow> 'a list \<Rightarrow> bool" where
  "isin cell vals = (case cell of None \<Rightarrow> False | Some v \<Rightarrow> v \<in> set vals)"

text \<open>
  \<open>zones_df[zones_df["Zone"].isin(selected_zone_names)]["LocationID"].dropna().astype(int).unique().tolist()\<close>
\<close>

definition resolve_loc_ids :: "zone list \<Rightarrow> string list \<Rightarrow> int list" where
  "resolve_loc_ids zones_df selected_zone_names =
     unique (List.map_filter zone.LocationID
               (filter (\<lambda>z. isin (Zone z) selected_zone_names) zones_df))"

section \<open>The query\<close>

text \<open>
  SQL conditions are three-valued: \<open>None\<close> is NULL. A comparison with a NULL operand is
  NULL; \<open>AND\<close> is FALSE as soon as one side is FALSE, otherwise NULL if one side is NULL.
  A WHERE clause keeps a row only when the condition is TRUE.
\<close>

type_synonym sql_bool = "bool option"

definition sql_and :: "sql_bool \<Rightarrow> sql_bool \<Rightarrow> sql_bool" where
  "sql_and a b =
     (if a = Some False \<or> b = Some False then Some False
      else if a = None \<or> b = None then None
      else Some True)"

definition sql_cmp :: "('a \<Rightarrow> 'a \<Rightarrow> bool) \<Rightarrow> 'a option \<Rightarrow> 'a option \<Rightarrow> sql_bool" where
  "sql_cmp rel x y =
     (case x of None \<Rightarrow> None
      | Some a \<Rightarrow> (case y of None \<Rightarrow> None | Some b \<Rightarrow> Some (rel a b)))"

text \<open>\<open>x IN (v1, ..., vn)\<close> with literal, non-NULL values.\<close>

definition sql_in :: "'a option \<Rightarrow> 'a list \<Rightarrow> sql_bool" where
  "sql_in x vals = (case x of None \<Rightarrow> None | Some a \<Rightarrow> Some (a \<in> set vals))"

text \<open>\<open>x BETWEEN lo AND hi\<close> is \<open>x >= lo AND x <= hi\<close>.\<close>

definition sql_between :: "int option \<Rightarrow> int \<Rightarrow> int \<Rightarrow> sql_bool" where
  "sql_between x lo hi = sql_and (sql_cmp (\<ge>) x (Some lo)) (sql_cmp (\<le>) x (Some hi))"

text \<open>The hour of the day of a timestamp (\<open>EXTRACT('hour' FROM ts)\<close>, and \<open>.dt.hour\<close>).\<close>

definition hour_of :: "timestamp \<Rightarrow> int" where
  "hour_of t = (t div 3600000000) mod 24"

definition extract_hour :: "timestamp option \<Rightarrow> int option" where
  "extract_hour ts = map_option hour_of ts"

text \<open>
  The query text is an f-string with six holes; a query is the record of what fills them.
  \<open>zone_filter_sql\<close> is \<open>None\<close> for the empty string and \<open>Some ids\<close> for
  \<open>AND PULocationID IN (ids)\<close>.
\<close>

record sql_query =
  start_datetime :: timestamp
  end_datetime :: timestamp
  hour_min :: int
  hour_max :: int
  payment_codes :: "int list"
  zone_filter_sql :: "int list option"

text \<open>The WHERE clause, conjunct by conjunct in source order.\<close>

definition where_clause :: "sql_query \<Rightarrow> 'a raw_row_scheme \<Rightarrow> sql_bool" where
  "where_clause q t =
     sql_and (sql_cmp (\<ge>) (tpep_pickup_datetime t) (Some (start_datetime q)))
    (sql_and (sql_cmp (<) (tpep_pickup_datetime t) (Some (end_datetime q)))
    (sql_and (sql_between (extract_hour (tpep_pickup_datetime t)) (hour_min q) (hour_max q))
    (sql_and (sql_in (payment_type t) (payment_codes q))
    (sql_and (sql_cmp (>) (trip_distance t) (Some 0))
    (sql_and (sql_cmp (>) (fare_amount t) (Some 0))
    (sql_and (sql_cmp (\<le>) (fare_amount t) (Some 500))
    (sql_and (sql_cmp (>) (tpep_dropoff_datetime t) (tpep_pickup_datetime t))
       (case zone_filter_sql q of
          None \<Rightarrow> Some True
        | Some loc_ids \<Rightarrow> sql_in (PULocationID t) loc_ids))))))))"

definition select_list :: "string list" where
  "select_list =
     [''tpep_pickup_datetime'', ''tpep_dropoff_datetime'', ''PULocationID'', ''DOLocationID'',
      ''trip_distance'', ''fare_amount'', ''tip_amount'', ''total_amount'', ''payment_type'']"

text \<open>
  \<open>duckdb.query(sql).to_df()\<close> against the trip file \<open>dataset\<close>: the rows for which the
  WHERE clause is TRUE, cut down to the selected columns. The query has no ORDER BY; the
  model returns the rows in file order, and the theorems below speak of multisets only.
\<close>

definition duckdb_query :: "trip list \<Rightarrow> sql_query \<Rightarrow> raw_row dataframe" where
  "duckdb_query dataset q =
     \<lparr>columns = select_list,
      rows = map raw_row.truncate (filter (\<lambda>t. where_clause q t = Some True) dataset)\<rparr>"

section \<open>Derived columns\<close>

text \<open>\<open>Timedelta.total_seconds()\<close> of a difference of timestamps.\<close>

definition total_seconds :: "int \<Rightarrow> real" where
  "total_seconds delta = real_of_int delta / 1000000"

definition duration_minutes :: "timestamp option \<Rightarrow> timestamp option \<Rightarrow> real option" where
  "duration_minutes dropoff pickup =
     (case dropoff of None \<Rightarrow> None
      | Some d \<Rightarrow> (case pickup of None \<Rightarrow> None | Some p \<Rightarrow> Some (total_seconds (d - p) / 60)))"

text \<open>\<open>.dt.date\<close>: the day of a timestamp, counted from 1970-01-01.\<close>

definition date_of :: "timestamp \<Rightarrow> int" where
  "date_of t = t div 86400000000"

text \<open>\<open>.dt.day_name()\<close>: 1970-01-01 was a Thursday.\<close>

definition day_name :: "timestamp \<Rightarrow> string" where
  "day_name t =
     (let w = (date_of t + 3) mod 7 in
      if w = 0 then ''Monday'' else if w = 1 then ''Tuesday''
      else if w = 2 then ''Wednesday'' else if w = 3 then ''Thursday''
      else if w = 4 then ''Friday'' else if w = 5 then ''Saturday''
      else ''Sunday'')"

definition day_order :: "string list" where
  "day_order =
     [''Monday'', ''Tuesday'', ''Wednesday'', ''Thursday'', ''Friday'', ''Saturday'', ''Sunday'']"

text \<open>
  \<open>pd.Categorical(values, categories=..., ordered=True)\<close> on one cell: the code of a value
  is its position in the category list; a missing value, and a value that is not a
  category, have no code (NaN). An ordered Categorical compares and sorts by code.
\<close>

fun index_of :: "'a \<Rightarrow> 'a list \<Rightarrow> nat option" where
  "index_of v [] = None"
| "index_of v (c # cs) = (if v = c then Some 0 else map_option Suc (index_of v cs))"

definition Categorical :: "string list \<Rightarrow> string option \<Rightarrow> nat option" where
  "Categorical categories cell =
     (case cell of None \<Rightarrow> None | Some v \<Rightarrow> index_of v categories)"

text \<open>The category a code stands for.\<close>

definition category_of :: "string list \<Rightarrow> nat option \<Rightarrow> string option" where
  "category_of categories code =
     (case code of None \<Rightarrow> None
      | Some c \<Rightarrow> if c < length categories then Some (categories ! c) else None)"

text \<open>
  \<open>df.merge(zones_df[["LocationID", "Zone"]], left_on="PULocationID", right_on="LocationID",
  how="left")\<close> for one left row: one output row per zone row with the same key, in zone
  table order, and one output row with missing zone columns when there is none. pandas
  matches a missing key with a missing key.
\<close>

definition merge_matches :: "zone list \<Rightarrow> int option \<Rightarrow> (int option \<times> string option) list" where
  "merge_matches zones_df key =
     (let ms = filter (\<lambda>z. zone.LocationID z = key) zones_df in
      if ms = [] then [(None, None)] else map (\<lambda>z. (zone.LocationID z, Zone z)) ms)"

text \<open>All derived cells of one output row of the merge.\<close>

definition derive_row :: "raw_row \<Rightarrow> int option \<times> string option \<Rightarrow> derived_row" where
  "derive_row r z =
     \<lparr>tpep_pickup_datetime = tpep_pickup_datetime r,
      tpep_dropoff_datetime = tpep_dropoff_datetime r,
      PULocationID = PULocationID r,
      DOLocationID = DOLocationID r,
      trip_distance = trip_distance r,
      fare_amount = fare_amount r,
      tip_amount = tip_amount r,
      total_amount = total_amount r,
      payment_type = payment_type r,
      trip_duration_minutes =
        duration_minutes (tpep_dropoff_datetime r) (tpep_pickup_datetime r),
      pickup_hour = extract_hour (tpep_pickup_datetime r),
      pickup_day_of_week =
        Categorical day_order (map_option day_name (tpep_pickup_datetime r)),
      pickup_date = map_option date_of (tpep_pickup_datetime r),
      LocationID = fst z,
      pickup_zone = snd z,
      payment_label = payment_label_of (payment_type r)\<rparr>"

text \<open>
  Column bookkeeping: \<open>df[c] = ...\<close> overwrites column \<open>c\<close> in place or appends it; the
  merge appends the columns of the right frame; \<open>rename\<close> renames.
\<close>

definition assign :: "string \<Rightarrow> string list \<Rightarrow> string list" where
  "assign c cols = (if c \<in> set cols then cols else cols @ [c])"

definition rename :: "string \<Rightarrow> string \<Rightarrow> string list \<Rightarrow> string list" where
  "rename old new cols = map (\<lambda>c. if c = old then new else c) cols"

definition derived_columns :: "string list \<Rightarrow> string list" where
  "derived_columns cols =
     assign ''pickup_day_of_week''
    (assign ''payment_label''
    (rename ''Zone'' ''pickup_zone''
    ((assign ''pickup_date''
     (assign ''pickup_day_of_week''
     (assign ''pickup_hour''
     (assign ''trip_duration_minutes''
     (assign ''tpep_dropoff_datetime''
     (assign ''tpep_pickup_datetime'' cols))))))
     @ [''LocationID'', ''Zone''])))"

text \<open>The derivation stage: everything \<open>get_filtered_df\<close> does after the query.\<close>

definition derive :: "zone list \<Rightarrow> raw_row dataframe \<Rightarrow> derived_row dataframe" where
  "derive zones_df df =
     \<lparr>columns = derived_columns (columns df),
      rows = concat (map (\<lambda>r. map (derive_row r) (merge_matches zones_df (PULocationID r)))
                         (rows df))\<rparr>"

section \<open>get_filtered_df\<close>

text \<open>
  \<open>zones_df\<close> is what \<open>load_zones()\<close> returns and \<open>dataset\<close> the content of the remote trip
  file. The function returns the frame together with the list of queries it issued
  against the trip file, so that "no query" is a statement about the model. A failure of
  the remote source is outside the model.
\<close>

definition zone_filter :: "zone list \<Rightarrow> string list \<Rightarrow> int list option" where
  "zone_filter zones_df selected_zone_names =
     (if selected_zone_names \<noteq> [] then
        (let loc_ids = resolve_loc_ids zones_df selected_zone_names in
         if loc_ids \<noteq> [] then Some loc_ids else None)
      else None)"

definition build_query ::
  "zone list \<Rightarrow> timestamp \<Rightarrow> timestamp \<Rightarrow> int \<Rightarrow> int \<Rightarrow> string list \<Rightarrow> string list \<Rightarrow> sql_query" where
  "build_query zones_df start end hmin hmax payment_labels selected_zone_names =
     \<lparr>start_datetime = start, end_datetime = end, hour_min = hmin, hour_max = hmax,
      payment_codes = resolve_payment_codes payment_labels,
      zone_filter_sql = zone_filter zones_df selected_zone_names\<rparr>"

definition get_filtered_df ::
  "zone list \<Rightarrow> trip list \<Rightarrow> timestamp \<Rightarrow> timestamp \<Rightarrow> int \<Rightarrow> int \<Rightarrow> string list \<Rightarrow> string list
     \<Rightarrow> derived_row dataframe \<times> sql_query list" where
  "get_filtered_df zones_df dataset start end hmin hmax payment_labels selected_zone_names =
     (if resolve_payment_codes payment_labels = [] then
        (\<lparr>columns = [], rows = []\<rparr>, [])
      else
        (let q = build_query zones_df start end hmin hmax payment_labels selected_zone_names
         in (derive zones_df (duckdb_query dataset q), [q])))"

section \<open>The result cache\<close>




section \<open>Grouping by weekday\<close>


section \<open>Calendar dates\<close>

text \<open>
  The number of days from 1970-01-01 to a date of the proleptic Gregorian calendar, and
  the timestamp of a date and a time of day (\<open>pd.to_datetime\<close>, and the TIMESTAMP literal
  of the query).
\<close>

definition days_from_civil :: "int \<Rightarrow> int \<Rightarrow> int \<Rightarrow> int" where
  "days_from_civil y m d =
     (let y' = (if m \<le> 2 then y - 1 else y);
          era = y' div 400;
          yoe = y' - era * 400;
          doy = (153 * ((m + 9) mod 12) + 2) div 5 + d - 1;
          doe = yoe * 365 + yoe div 4 - yoe div 100 + doy
      in era * 146097 + doe - 719468)"

definition Timestamp :: "int \<Rightarrow> int \<Rightarrow> int \<Rightarrow> int \<Rightarrow> int \<Rightarrow> timestamp" where
  "Timestamp y m d hh mm = ((days_from_civil y m d * 24 + hh) * 60 + mm) * 60000000"

section \<open>The in-memory pipeline of app.py\<close>

text \<open>
  A pandas comparison of two cells is False when either is missing. Frames of app.py are
  modelled by their rows alone.
\<close>

definition pd_cmp :: "('a \<Rightarrow> 'a \<Rightarrow> bool) \<Rightarrow> 'a option \<Rightarrow> 'a option \<Rightarrow> bool" where
  "pd_cmp rel x y =
     (case x of None \<Rightarrow> False
      | Some a \<Rightarrow> (case y of None \<Rightarrow> False | Some b \<Rightarrow> rel a b))"

text \<open>
  \<open>df["trip_distance"] / (df["trip_duration_minutes"].replace(0, pd.NA) / 60)\<close>
\<close>

definition speed_mph :: "real option \<Rightarrow> real option \<Rightarrow> real option" where
  "speed_mph distance minutes =
     (case distance of None \<Rightarrow> None
      | Some d \<Rightarrow>
          (case minutes of None \<Rightarrow> None
           | Some m \<Rightarrow> if m = 0 then None else Some (d / (m / 60))))"

definition app_derive_row :: "trip \<Rightarrow> int option \<times> string option \<Rightarrow> app_row" where
  "app_derive_row r z =
     \<lparr>tpep_pickup_datetime = tpep_pickup_datetime r,
      tpep_dropoff_datetime = tpep_dropoff_datetime r,
      PULocationID = PULocationID r,
      DOLocationID = DOLocationID r,
      trip_distance = trip_distance r,
      fare_amount = fare_amount r,
      tip_amount = tip_amount r,
      total_amount = total_amount r,
      payment_type = payment_type r,
      trip_duration_minutes =
        duration_minutes (tpep_dropoff_datetime r) (tpep_pickup_datetime r),
      pickup_hour = extract_hour (tpep_pickup_datetime r),
      pickup_day_of_week =
        Categorical day_order (map_option day_name (tpep_pickup_datetime r)),
      pickup_date = map_option date_of (tpep_pickup_datetime r),
      LocationID = fst z,
      pickup_zone = snd z,
      payment_label = payment_label_of (payment_type r),
      passenger_count = trip.passenger_count r,
      trip_speed_mph =
        speed_mph (trip_distance r)
          (duration_minutes (tpep_dropoff_datetime r) (tpep_pickup_datetime r))\<rparr>"

text \<open>\<open>df.dropna(subset=[...])\<close> keeps the rows in which none of the five cells is missing.\<close>

definition dropna_subset :: "trip \<Rightarrow> bool" where
  "dropna_subset t \<longleftrightarrow>
     tpep_pickup_datetime t \<noteq> None \<and> tpep_dropoff_datetime t \<noteq> None \<and>
     PULocationID t \<noteq> None \<and> DOLocationID t \<noteq> None \<and> fare_amount t \<noteq> None"

definition cleaning_mask :: "trip \<Rightarrow> bool" where
  "cleaning_mask t \<longleftrightarrow>
     pd_cmp (>) (trip_distance t) (Some 0) \<and>
     pd_cmp (>) (fare_amount t) (Some 0) \<and>
     pd_cmp (\<le>) (fare_amount t) (Some 500) \<and>
     pd_cmp (>) (tpep_dropoff_datetime t) (tpep_pickup_datetime t)"

definition load_data :: "zone list \<Rightarrow> trip list \<Rightarrow> app_row list" where
  "load_data zones dataset =
     concat (map (\<lambda>t. map (app_derive_row t) (merge_matches zones (PULocationID t)))
                 (filter cleaning_mask (filter dropna_subset dataset)))"

text \<open>The sidebar filter: \<open>hour_range\<close> is the pair returned by the slider.\<close>

definition sidebar_mask ::
  "timestamp \<Rightarrow> timestamp \<Rightarrow> int \<times> int \<Rightarrow> string list \<Rightarrow> app_row \<Rightarrow> bool" where
  "sidebar_mask start end hour_range selected_payments r \<longleftrightarrow>
     pd_cmp (\<ge>) (tpep_pickup_datetime r) (Some start) \<and>
     pd_cmp (<) (tpep_pickup_datetime r) (Some end) \<and>
     pd_cmp (\<ge>) (pickup_hour r) (Some (fst hour_range)) \<and>
     pd_cmp (\<le>) (pickup_hour r) (Some (snd hour_range)) \<and>
     payment_label r \<in> set selected_payments"

definition filtered_df ::
  "app_row list \<Rightarrow> timestamp \<Rightarrow> timestamp \<Rightarrow> int \<times> int \<Rightarrow> string list \<Rightarrow> string list
     \<Rightarrow> app_row list" where
  "filtered_df df start end hour_range selected_payments selected_zones =
     (let filtered = filter (sidebar_mask start end hour_range selected_payments) df in
      if selected_zones \<noteq> [] then
        filter (\<lambda>r. isin (pickup_zone r) selected_zones) filtered
      else filtered)"

section \<open>The filter predicates, as the specification words them\<close>

text \<open>
  A row satisfies the filter when its pickup lies in \<open>[start, end)\<close>, the hour of the pickup
  in \<open>[hmin, hmax]\<close>, its payment code is one of \<open>codes\<close>, its distance is positive, its
  fare lies in \<open>(0, 500]\<close>, its dropoff is later than its pickup and, when zone names were
  resolved to \<open>ids\<close>, its pickup location is one of them. A missing cell satisfies nothing.
\<close>

definition spec_predicates ::
  "timestamp \<Rightarrow> timestamp \<Rightarrow> int \<Rightarrow> int \<Rightarrow> int list \<Rightarrow> int list option
     \<Rightarrow> 'a raw_row_scheme \<Rightarrow> bool" where
  "spec_predicates start end hmin hmax codes zone_ids t \<longleftrightarrow>
     (case tpep_pickup_datetime t of None \<Rightarrow> False
      | Some p \<Rightarrow> start \<le> p \<and> p < end \<and> hmin \<le> hour_of p \<and> hour_of p \<le> hmax \<and>
          (case tpep_dropoff_datetime t of None \<Rightarrow> False | Some d \<Rightarrow> p < d)) \<and>
     (case payment_type t of None \<Rightarrow> False | Some c \<Rightarrow> c \<in> set codes) \<and>
     (case trip_distance t of None \<Rightarrow> False | Some d \<Rightarrow> 0 < d) \<and>
     (case fare_amount t of None \<Rightarrow> False | Some f \<Rightarrow> 0 < f \<and> f \<le> 500) \<and>
     (case zone_ids of None \<Rightarrow> True
      | Some ids \<Rightarrow> (case PULocationID t of None \<Rightarrow> False | Some l \<Rightarrow> l \<in> set ids))"

section \<open>Theorems\<close>

subsection \<open>Payment labels\<close>

lemma PAYMENT_MAP_None: "c < 1 \<or> 6 < c \<Longrightarrow> PAYMENT_MAP c = None"
  by (auto simp: PAYMENT_MAP_def PAYMENT_MAP_items_def)

text \<open>
  C7. The payment label of a row is a function of its payment code alone: the codes 1 to 6
  give Credit Card, Cash, No Charge, Dispute, Unknown and Voided Trip, and every other
  code, as well as a missing code, gives Other/Missing.
\<close>

theorem payment_label_total:
  "payment_label_of (Some 1) = ''Credit Card'' \<and>
   payment_label_of (Some 2) = ''Cash'' \<and>
   payment_label_of (Some 3) = ''No Charge'' \<and>
   payment_label_of (Some 4) = ''Dispute'' \<and>
   payment_label_of (Some 5) = ''Unknown'' \<and>
   payment_label_of (Some 6) = ''Voided Trip'' \<and>
   payment_label_of None = ''Other/Missing'' \<and>
   (\<forall>c. c \<notin> {1, 2, 3, 4, 5, 6} \<longrightarrow> payment_label_of (Some c) = ''Other/Missing'') \<and>
   (\<forall>r z. payment_label (derive_row r z) = payment_label_of (payment_type r))"
proof -
  have other: "payment_label_of (Some c) = ''Other/Missing''" if "c \<notin> {1, 2, 3, 4, 5, 6}" for c
  proof -
    from that have "c < 1 \<or> 6 < c" by auto
    then show ?thesis by (simp add: payment_label_of_def PAYMENT_MAP_None)
  qed
  have known:
    "payment_label_of (Some 1) = ''Credit Card''" "payment_label_of (Some 2) = ''Cash''"
    "payment_label_of (Some 3) = ''No Charge''" "payment_label_of (Some 4) = ''Dispute''"
    "payment_label_of (Some 5) = ''Unknown''" "payment_label_of (Some 6) = ''Voided Trip''"
    "payment_label_of None = ''Other/Missing''"
    by (simp_all add: payment_label_of_def PAYMENT_MAP_def PAYMENT_MAP_items_def)
  have row: "payment_label (derive_row r z) = payment_label_of (payment_type r)" for r z
    by (simp add: derive_row_def)
  from known other row show ?thesis by blast
qed

theorem payment_label_total_witness:
  "(7::int) \<notin> {1, 2, 3, 4, 5, 6} \<and> payment_label_of (Some 7) = ''Other/Missing''"
  using payment_label_total by simp

subsection \<open>The query keeps exactly the rows that satisfy the predicates\<close>

lemma set_map_filter_conv:
  "set (List.map_filter f xs) = {y. \<exists>x \<in> set xs. f x = Some y}"
  by (induction xs) (auto split: option.splits)

lemma sql_and_True: "sql_and a b = Some True \<longleftrightarrow> a = Some True \<and> b = Some True"
  by (cases a; cases b) (auto simp: sql_and_def)

lemma sql_cmp_True:
  "sql_cmp rel x y = Some True \<longleftrightarrow> (\<exists>a b. x = Some a \<and> y = Some b \<and> rel a b)"
  by (auto simp: sql_cmp_def split: option.splits)

lemma sql_in_True: "sql_in x vals = Some True \<longleftrightarrow> (\<exists>a. x = Some a \<and> a \<in> set vals)"
  by (auto simp: sql_in_def split: option.splits)

lemma sql_between_True:
  "sql_between x lo hi = Some True \<longleftrightarrow> (\<exists>a. x = Some a \<and> lo \<le> a \<and> a \<le> hi)"
  by (auto simp: sql_between_def sql_and_True sql_cmp_True)

lemma where_clause_iff:
  "where_clause q t = Some True \<longleftrightarrow>
     spec_predicates (start_datetime q) (end_datetime q) (hour_min q) (hour_max q)
       (payment_codes q) (zone_filter_sql q) t"
  by (auto simp: where_clause_def spec_predicates_def sql_and_True sql_cmp_True sql_in_True
      sql_between_True extract_hour_def split: option.splits)

lemma spec_predicates_truncate:
  "spec_predicates s e lo hi cs zs (raw_row.truncate t) = spec_predicates s e lo hi cs zs t"
  by (simp add: spec_predicates_def raw_row.truncate_def cong: option.case_cong)

lemma duckdb_query_rows:
  "mset (rows (duckdb_query dataset q)) =
     image_mset raw_row.truncate
       (filter_mset (spec_predicates (start_datetime q) (end_datetime q) (hour_min q)
          (hour_max q) (payment_codes q) (zone_filter_sql q)) (mset dataset))"
  by (simp add: duckdb_query_def where_clause_iff flip: mset_filter)


text \<open>
  C1. When the selected payment labels resolve to at least one code, \<open>get_filtered_df\<close>
  issues exactly one query, and the rows that query returns are, as a multiset, the rows of
  the trip file that satisfy all the filter predicates, each cut down to the selected
  columns: every returned row satisfies the predicates, and every row of the file that
  satisfies them is returned once for each time it occurs in the file.
\<close>

theorem query_sound_complete:
  assumes "resolve_payment_codes payment_labels \<noteq> []"
  shows
  "(\<forall>r \<in> set (rows (duckdb_query dataset
        (build_query zones_df start end hmin hmax payment_labels selected_zone_names))).
      spec_predicates start end hmin hmax (resolve_payment_codes payment_labels)
        (zone_filter zones_df selected_zone_names) r) \<and>
   mset (rows (duckdb_query dataset
        (build_query zones_df start end hmin hmax payment_labels selected_zone_names))) =
     image_mset raw_row.truncate
       (filter_mset (spec_predicates start end hmin hmax
            (resolve_payment_codes payment_labels) (zone_filter zones_df selected_zone_names))
          (mset dataset)) \<and>
   get_filtered_df zones_df dataset start end hmin hmax payment_labels selected_zone_names =
     (derive zones_df (duckdb_query dataset
        (build_query zones_df start end hmin hmax payment_labels selected_zone_names)),
      [build_query zones_df start end hmin hmax payment_labels selected_zone_names])"
proof (intro conjI)
  let ?q = "build_query zones_df start end hmin hmax payment_labels selected_zone_names"
  show "\<forall>r \<in> set (rows (duckdb_query dataset ?q)).
      spec_predicates start end hmin hmax (resolve_payment_codes payment_labels)
        (zone_filter zones_df selected_zone_names) r"
    by (auto simp: duckdb_query_def where_clause_iff build_query_def spec_predicates_truncate)
  show "mset (rows (duckdb_query dataset ?q)) =
     image_mset raw_row.truncate
       (filter_mset (spec_predicates start end hmin hmax
            (resolve_payment_codes payment_labels) (zone_filter zones_df selected_zone_names))
          (mset dataset))"
    by (simp add: duckdb_query_rows build_query_def)
  show "get_filtered_df zones_df dataset start end hmin hmax payment_labels selected_zone_names =
     (derive zones_df (duckdb_query dataset ?q), [?q])"
    using assms by (simp add: get_filtered_df_def Let_def)
qed

theorem query_sound_complete_witness:
  "resolve_payment_codes [''Cash''] \<noteq> [] \<and>
   mset (rows (duckdb_query
      [\<lparr>tpep_pickup_datetime = Some 3600000000, tpep_dropoff_datetime = Some 4200000000,
        PULocationID = Some 132, DOLocationID = Some 1, trip_distance = Some 2,
        fare_amount = Some 10, tip_amount = None, total_amount = Some 10,
        payment_type = Some 2, trip.passenger_count = Some 1\<rparr>,
       \<lparr>tpep_pickup_datetime = Some 3600000000, tpep_dropoff_datetime = Some 4200000000,
        PULocationID = Some 132, DOLocationID = Some 1, trip_distance = Some 2,
        fare_amount = None, tip_amount = None, total_amount = Some 10,
        payment_type = Some 2, trip.passenger_count = Some 1\<rparr>]
      (build_query [] 0 86400000000 0 23 [''Cash''] []))) =
   {#\<lparr>tpep_pickup_datetime = Some 3600000000, tpep_dropoff_datetime = Some 4200000000,
        PULocationID = Some 132, DOLocationID = Some 1, trip_distance = Some 2,
        fare_amount = Some 10, tip_amount = None, total_amount = Some 10,
        payment_type = Some 2\<rparr>#}"
proof -
  have codes: "resolve_payment_codes [''Cash''] = [2]"
    by (simp add: resolve_payment_codes_def LABEL_TO_CODE_def PAYMENT_MAP_items_def)
  then have h: "resolve_payment_codes [''Cash''] \<noteq> []" by simp
  have hour: "hour_of 3600000000 = 1" by (simp add: hour_of_def)
  show ?thesis
    using query_sound_complete [OF h, of
      "[\<lparr>tpep_pickup_datetime = Some 3600000000, tpep_dropoff_datetime = Some 4200000000,
        PULocationID = Some 132, DOLocationID = Some 1, trip_distance = Some 2,
        fare_amount = Some 10, tip_amount = None, total_amount = Some 10,
        payment_type = Some 2, trip.passenger_count = Some 1\<rparr>,
       \<lparr>tpep_pickup_datetime = Some 3600000000, tpep_dropoff_datetime = Some 4200000000,
        PULocationID = Some 132, DOLocationID = Some 1, trip_distance = Some 2,
        fare_amount = None, tip_amount = None, total_amount = Some 10,
        payment_type = Some 2, trip.passenger_count = Some 1\<rparr>]"
      "[]" 0 86400000000 0 23 "[]"]
    by (simp add: codes hour spec_predicates_def zone_filter_def raw_row.truncate_def)
qed

subsection \<open>Row count of the derivation stage\<close>







subsection \<open>Empty payment selection\<close>

text \<open>
  C3. When no selected payment label resolves to a code, and in particular when no label
  is selected, \<open>get_filtered_df\<close> returns the empty frame and issues no query.
\<close>

theorem empty_payment_short_circuit:
  "(resolve_payment_codes payment_labels = [] \<longrightarrow>
      get_filtered_df zones_df dataset start end hmin hmax payment_labels selected_zone_names =
        (\<lparr>columns = [], rows = []\<rparr>, [])) \<and>
   get_filtered_df zones_df dataset start end hmin hmax [] selected_zone_names =
     (\<lparr>columns = [], rows = []\<rparr>, [])"
  by (simp add: get_filtered_df_def resolve_payment_codes_def)

theorem empty_payment_short_circuit_witness:
  "resolve_payment_codes [''Bitcoin''] = [] \<and>
   get_filtered_df [] [] 0 86400000000 0 23 [''Bitcoin''] [] = (\<lparr>columns = [], rows = []\<rparr>, [])"
proof -
  have h: "resolve_payment_codes [''Bitcoin''] = []"
    by (simp add: resolve_payment_codes_def LABEL_TO_CODE_def PAYMENT_MAP_items_def)
  with empty_payment_short_circuit [of "[''Bitcoin'']" "[]" "[]" 0 86400000000 0 23 "[]"]
  show ?thesis by simp
qed

subsection \<open>Zone names that resolve to nothing\<close>

lemma set_unique_from: "set (unique_from seen xs) = set xs - set seen"
  by (induction seen xs rule: unique_from.induct) auto

lemma set_unique: "set (unique xs) = set xs"
  by (simp add: unique_def set_unique_from)

lemma set_resolve_loc_ids:
  "set (resolve_loc_ids zones_df names) =
     {i. \<exists>z \<in> set zones_df. isin (Zone z) names \<and> zone.LocationID z = Some i}"
  by (auto simp: resolve_loc_ids_def set_unique set_map_filter_conv)

lemma resolve_loc_ids_no_names: "resolve_loc_ids zones_df [] = []"
  by (simp add: resolve_loc_ids_def isin_def unique_def split: option.splits)

text \<open>
  C4. When zone names are selected and none of them resolves to a location id,
  \<open>get_filtered_df\<close> returns what it returns for the same arguments with no zone selected,
  and issues the same query: the zone filter is dropped.
\<close>

theorem unresolved_zones_ignored:
  assumes "selected_zone_names \<noteq> []"
    and "resolve_loc_ids zones_df selected_zone_names = []"
  shows "get_filtered_df zones_df dataset start end hmin hmax payment_labels selected_zone_names =
         get_filtered_df zones_df dataset start end hmin hmax payment_labels []"
  using assms by (simp add: get_filtered_df_def build_query_def zone_filter_def Let_def)

theorem unresolved_zones_ignored_witness:
  "[''Atlantis''] \<noteq> [] \<and>
   resolve_loc_ids [\<lparr>zone.LocationID = Some 132, Zone = Some ''JFK Airport''\<rparr>] [''Atlantis''] = [] \<and>
   get_filtered_df [\<lparr>zone.LocationID = Some 132, Zone = Some ''JFK Airport''\<rparr>] []
       0 86400000000 0 23 [''Cash''] [''Atlantis''] =
   get_filtered_df [\<lparr>zone.LocationID = Some 132, Zone = Some ''JFK Airport''\<rparr>] []
       0 86400000000 0 23 [''Cash''] []"
proof -
  have a: "[''Atlantis''] \<noteq> []" by simp
  have b: "resolve_loc_ids [\<lparr>zone.LocationID = Some 132, Zone = Some ''JFK Airport''\<rparr>]
             [''Atlantis''] = []"
    by (simp add: resolve_loc_ids_def isin_def unique_def)
  from a b unresolved_zones_ignored [OF a b] show ?thesis by simp
qed

subsection \<open>The cache\<close>




lemma spec_predicates_set_cong:
  "set cs = set cs' \<Longrightarrow> map_option set zs = map_option set zs' \<Longrightarrow>
   spec_predicates s e lo hi cs zs t = spec_predicates s e lo hi cs' zs' t"
  by (cases zs; cases zs') (auto simp: spec_predicates_def split: option.splits)

lemma set_resolve_payment_codes_cong:
  "set labels = set labels' \<Longrightarrow>
   set (resolve_payment_codes labels) = set (resolve_payment_codes labels')"
  by (simp add: resolve_payment_codes_def set_map_filter_conv)

lemma zone_filter_set_cong:
  assumes "set names = set names'"
  shows "map_option set (zone_filter zones_df names) = map_option set (zone_filter zones_df names')"
proof -
  have "isin cell names = isin cell names'" for cell :: "string option"
    using assms by (cases cell) (simp_all add: isin_def)
  then have ids: "set (resolve_loc_ids zones_df names) = set (resolve_loc_ids zones_df names')"
    by (simp add: set_resolve_loc_ids)
  then have "resolve_loc_ids zones_df names = [] \<longleftrightarrow> resolve_loc_ids zones_df names' = []"
    by (metis set_empty)
  moreover from assms have "names = [] \<longleftrightarrow> names' = []"
    by (metis set_empty)
  ultimately show ?thesis using ids by (simp add: zone_filter_def Let_def)
qed

text \<open>
  What a reordered selection costs is the cache hit alone: the frame computed for it is
  the frame computed for the original selection, as long as the zone table and the trip
  file are the same.
\<close>

lemma reordered_selection_same_frame:
  assumes labels: "set payment_labels = set payment_labels'"
    and names: "set selected_zone_names = set selected_zone_names'"
  shows "fst (get_filtered_df zones_df dataset start end hmin hmax
                payment_labels selected_zone_names) =
         fst (get_filtered_df zones_df dataset start end hmin hmax
                payment_labels' selected_zone_names')"
proof -
  have codes: "set (resolve_payment_codes payment_labels) =
               set (resolve_payment_codes payment_labels')"
    using labels by (rule set_resolve_payment_codes_cong)
  then have empty: "resolve_payment_codes payment_labels = [] \<longleftrightarrow>
                    resolve_payment_codes payment_labels' = []"
    by (metis set_empty)
  have "where_clause (build_query zones_df start end hmin hmax payment_labels selected_zone_names) t
          = Some True \<longleftrightarrow>
        where_clause (build_query zones_df start end hmin hmax payment_labels' selected_zone_names') t
          = Some True" for t :: trip
    unfolding where_clause_iff
    by (simp add: build_query_def
        spec_predicates_set_cong [OF codes zone_filter_set_cong [OF names]])
  then have "duckdb_query dataset
               (build_query zones_df start end hmin hmax payment_labels selected_zone_names) =
             duckdb_query dataset
               (build_query zones_df start end hmin hmax payment_labels' selected_zone_names')"
    by (simp add: duckdb_query_def)
  with empty show ?thesis by (simp add: get_filtered_df_def Let_def)
qed

subsection \<open>Columns of the result\<close>





subsection \<open>The JFK trip\<close>

lemma Timestamp_0510: "Timestamp 2024 1 5 5 10 = 1704431400000000"
  by (simp add: Timestamp_def days_from_civil_def)

lemma Timestamp_0540: "Timestamp 2024 1 5 5 40 = 1704433200000000"
  by (simp add: Timestamp_def days_from_civil_def)

lemma derive_rows_mem:
  "t \<in> set dataset \<Longrightarrow> where_clause q t = Some True \<Longrightarrow>
   z \<in> set (merge_matches zones_df (PULocationID t)) \<Longrightarrow>
   derive_row (raw_row.truncate t) z \<in> set (rows (derive zones_df (duckdb_query dataset q)))"
  by (force simp: derive_def duckdb_query_def raw_row.truncate_def)

text \<open>
  C8. Take a trip file that holds the trip picked up at JFK Airport (location 132) on
  2024-01-05 at 05:10 and dropped off at 05:40, 12 miles, fare 45.00, paid by credit card;
  a zone table in which location 132 is JFK Airport; a time window that contains the
  pickup; hours 0 to 23; payment labels Credit Card; no zone selected. Then the result of
  \<open>get_filtered_df\<close> holds that trip, with a duration of 30 minutes, pickup hour 5, weekday
  Friday, pickup zone JFK Airport and payment label Credit Card.
\<close>

theorem jfk_scenario:
  assumes t: "t = \<lparr>tpep_pickup_datetime = Some (Timestamp 2024 1 5 5 10),
                   tpep_dropoff_datetime = Some (Timestamp 2024 1 5 5 40),
                   PULocationID = Some 132, DOLocationID = dropoff_location,
                   trip_distance = Some 12, fare_amount = Some 45,
                   tip_amount = tip, total_amount = total_paid, payment_type = Some 1,
                   trip.passenger_count = passengers\<rparr>"
    and mem: "t \<in> set dataset"
    and range: "start \<le> Timestamp 2024 1 5 5 10" "Timestamp 2024 1 5 5 10 < end"
    and jfk: "filter (\<lambda>z. zone.LocationID z = Some 132) zones_df =
                [\<lparr>zone.LocationID = Some 132, Zone = Some ''JFK Airport''\<rparr>]"
  shows "\<exists>r \<in> set (rows (fst (get_filtered_df zones_df dataset start end 0 23
                                  [''Credit Card''] []))).
           tpep_pickup_datetime r = Some (Timestamp 2024 1 5 5 10) \<and>
           tpep_dropoff_datetime r = Some (Timestamp 2024 1 5 5 40) \<and>
           PULocationID r = Some 132 \<and> DOLocationID r = dropoff_location \<and>
           trip_distance r = Some 12 \<and> fare_amount r = Some 45 \<and>
           tip_amount r = tip \<and> total_amount r = total_paid \<and> payment_type r = Some 1 \<and>
           trip_duration_minutes r = Some 30 \<and>
           pickup_hour r = Some 5 \<and>
           category_of day_order (pickup_day_of_week r) = Some ''Friday'' \<and>
           pickup_zone r = Some ''JFK Airport'' \<and>
           payment_label r = ''Credit Card''"
proof -
  let ?q = "build_query zones_df start end 0 23 [''Credit Card''] []"
  let ?r = "derive_row (raw_row.truncate t) (Some 132, Some ''JFK Airport'')"
  have codes: "resolve_payment_codes [''Credit Card''] = [1]"
    by (simp add: resolve_payment_codes_def LABEL_TO_CODE_def PAYMENT_MAP_items_def)
  have hour: "hour_of 1704431400000000 = 5"
    by (simp add: hour_of_def)
  have "spec_predicates start end 0 23 [1] None t"
    using range by (simp add: spec_predicates_def t Timestamp_0510 Timestamp_0540 hour)
  then have w: "where_clause ?q t = Some True"
    by (simp add: where_clause_iff build_query_def codes zone_filter_def)
  have "(Some 132, Some ''JFK Airport'') \<in> set (merge_matches zones_df (PULocationID t))"
    by (simp add: merge_matches_def jfk t)
  with mem w have "?r \<in> set (rows (derive zones_df (duckdb_query dataset ?q)))"
    by (rule derive_rows_mem)
  then have in_result:
    "?r \<in> set (rows (fst (get_filtered_df zones_df dataset start end 0 23 [''Credit Card''] [])))"
    by (simp add: get_filtered_df_def codes Let_def)
  have day: "day_name 1704431400000000 = ''Friday''"
    by (simp add: day_name_def date_of_def)
  have cat: "Categorical day_order (Some ''Friday'') = Some 4"
    by (simp add: Categorical_def day_order_def)
  have fields:
    "tpep_pickup_datetime ?r = Some (Timestamp 2024 1 5 5 10)"
    "tpep_dropoff_datetime ?r = Some (Timestamp 2024 1 5 5 40)"
    "PULocationID ?r = Some 132" "DOLocationID ?r = dropoff_location"
    "trip_distance ?r = Some 12" "fare_amount ?r = Some 45"
    "tip_amount ?r = tip" "total_amount ?r = total_paid" "payment_type ?r = Some 1"
    "pickup_zone ?r = Some ''JFK Airport''"
    by (simp_all add: derive_row_def raw_row.truncate_def t)
  have duration: "trip_duration_minutes ?r = Some 30"
    by (simp add: derive_row_def raw_row.truncate_def t duration_minutes_def total_seconds_def
        Timestamp_0510 Timestamp_0540)
  have hour_r: "pickup_hour ?r = Some 5"
    by (simp add: derive_row_def raw_row.truncate_def t extract_hour_def Timestamp_0510 hour)
  have dow: "category_of day_order (pickup_day_of_week ?r) = Some ''Friday''"
    by (simp add: derive_row_def raw_row.truncate_def t Timestamp_0510 day cat category_of_def)
       (simp add: day_order_def)
  have label: "payment_label ?r = ''Credit Card''"
    by (simp add: derive_row_def raw_row.truncate_def t payment_label_of_def PAYMENT_MAP_def
        PAYMENT_MAP_items_def)
  from in_result fields duration hour_r dow label show ?thesis by blast
qed

theorem jfk_scenario_witness:
  "\<exists>r \<in> set (rows (fst (get_filtered_df
       [\<lparr>zone.LocationID = Some 132, Zone = Some ''JFK Airport''\<rparr>]
       [\<lparr>tpep_pickup_datetime = Some (Timestamp 2024 1 5 5 10),
         tpep_dropoff_datetime = Some (Timestamp 2024 1 5 5 40),
         PULocationID = Some 132, DOLocationID = Some 1,
         trip_distance = Some 12, fare_amount = Some 45,
         tip_amount = Some 0, total_amount = Some 45, payment_type = Some 1,
         trip.passenger_count = Some 1\<rparr>]
       (Timestamp 2024 1 5 0 0) (Timestamp 2024 1 6 0 0) 0 23 [''Credit Card''] []))).
     trip_duration_minutes r = Some 30 \<and> pickup_hour r = Some 5 \<and>
     category_of day_order (pickup_day_of_week r) = Some ''Friday'' \<and>
     pickup_zone r = Some ''JFK Airport'' \<and> payment_label r = ''Credit Card''"
proof -
  have range: "Timestamp 2024 1 5 0 0 \<le> Timestamp 2024 1 5 5 10"
    "Timestamp 2024 1 5 5 10 < Timestamp 2024 1 6 0 0"
    by (simp_all add: Timestamp_def days_from_civil_def)
  have jfk: "filter (\<lambda>z. zone.LocationID z = Some 132)
               [\<lparr>zone.LocationID = Some 132, Zone = Some ''JFK Airport''\<rparr>] =
             [\<lparr>zone.LocationID = Some 132, Zone = Some ''JFK Airport''\<rparr>]"
    by simp
  from jfk_scenario [OF refl _ range jfk, where dataset =
      "[\<lparr>tpep_pickup_datetime = Some (Timestamp 2024 1 5 5 10),
         tpep_dropoff_datetime = Some (Timestamp 2024 1 5 5 40),
         PULocationID = Some 132, DOLocationID = Some 1,
         trip_distance = Some 12, fare_amount = Some 45,
         tip_amount = Some 0, total_amount = Some 45, payment_type = Some 1,
         trip.passenger_count = Some 1\<rparr>]"]
  show ?thesis by auto
qed

subsection \<open>Weekdays in calendar order\<close>













subsection \<open>The two pipelines\<close>

lemma LABEL_TO_CODE_cases:
  "LABEL_TO_CODE l = Some c \<longleftrightarrow>
     (l, c) \<in> {(''Credit Card'', 1), (''Cash'', 2), (''No Charge'', 3),
                (''Dispute'', 4), (''Unknown'', 5), (''Voided Trip'', 6)}"
  by (auto simp: LABEL_TO_CODE_def PAYMENT_MAP_items_def split: if_splits)

lemma PAYMENT_MAP_cases:
  "PAYMENT_MAP c = Some l \<longleftrightarrow>
     (l, c) \<in> {(''Credit Card'', 1), (''Cash'', 2), (''No Charge'', 3),
                (''Dispute'', 4), (''Unknown'', 5), (''Voided Trip'', 6)}"
  by (auto simp: PAYMENT_MAP_def PAYMENT_MAP_items_def split: if_splits)

lemma LABEL_TO_CODE_inverse: "LABEL_TO_CODE l = Some c \<longleftrightarrow> PAYMENT_MAP c = Some l"
  by (simp only: LABEL_TO_CODE_cases PAYMENT_MAP_cases)

lemma other_missing_unknown: "LABEL_TO_CODE ''Other/Missing'' = None"
  by (simp add: LABEL_TO_CODE_def PAYMENT_MAP_items_def)

lemma label_selected_iff:
  assumes "set payment_labels \<subseteq> dom LABEL_TO_CODE"
  shows "payment_label_of code \<in> set payment_labels \<longleftrightarrow>
         (\<exists>c. code = Some c \<and> c \<in> set (resolve_payment_codes payment_labels))"
proof
  assume sel: "payment_label_of code \<in> set payment_labels"
  with assms obtain c' where c': "LABEL_TO_CODE (payment_label_of code) = Some c'" by auto
  then have known: "payment_label_of code \<noteq> ''Other/Missing''"
    using other_missing_unknown by auto
  then obtain c where code: "code = Some c"
    by (cases code) (auto simp: payment_label_of_def)
  with known obtain l where l: "PAYMENT_MAP c = Some l"
    by (cases "PAYMENT_MAP c") (auto simp: payment_label_of_def)
  then have "payment_label_of code = l" by (simp add: payment_label_of_def code)
  with sel l have "\<exists>l \<in> set payment_labels. LABEL_TO_CODE l = Some c"
    by (auto simp: LABEL_TO_CODE_inverse)
  with code show "\<exists>c. code = Some c \<and> c \<in> set (resolve_payment_codes payment_labels)"
    by (simp add: resolve_payment_codes_def set_map_filter_conv)
next
  assume "\<exists>c. code = Some c \<and> c \<in> set (resolve_payment_codes payment_labels)"
  then obtain c l where "code = Some c" "l \<in> set payment_labels" "LABEL_TO_CODE l = Some c"
    by (auto simp: resolve_payment_codes_def set_map_filter_conv)
  then show "payment_label_of code \<in> set payment_labels"
    by (simp add: LABEL_TO_CODE_inverse payment_label_of_def)
qed

lemma matched_zone_selected_iff:
  assumes d: "distinct (map zone.LocationID zones_df)"
    and z: "z \<in> set (merge_matches zones_df (Some i))"
  shows "isin (snd z) names \<longleftrightarrow> i \<in> set (resolve_loc_ids zones_df names)"
proof (cases "filter (\<lambda>z. zone.LocationID z = Some i) zones_df = []")
  case True
  with z have "z = (None, None)" by (simp add: merge_matches_def)
  moreover from True have "i \<notin> set (resolve_loc_ids zones_df names)"
    by (auto simp: set_resolve_loc_ids filter_empty_conv)
  ultimately show ?thesis by (simp add: isin_def)
next
  case False
  with z obtain z' where z': "z' \<in> set zones_df" "zone.LocationID z' = Some i"
    "z = (zone.LocationID z', Zone z')"
    by (auto simp: merge_matches_def Let_def)
  from d have inj: "inj_on zone.LocationID (set zones_df)" by (simp add: distinct_map)
  show ?thesis
  proof
    assume "isin (snd z) names"
    with z' show "i \<in> set (resolve_loc_ids zones_df names)"
      by (auto simp: set_resolve_loc_ids)
  next
    assume "i \<in> set (resolve_loc_ids zones_df names)"
    then obtain z'' where z'': "z'' \<in> set zones_df" "isin (Zone z'') names"
      "zone.LocationID z'' = Some i"
      by (auto simp: set_resolve_loc_ids)
    from inj_onD [OF inj, of z'' z'] z'' z' have "z'' = z'" by simp
    with z'' z' show "isin (snd z) names" by simp
  qed
qed

lemma truncate_app_derive_row:
  "derived_row.truncate (app_derive_row t z) = derive_row (raw_row.truncate t) z"
  by (simp add: derived_row.truncate_def app_derive_row_def derive_row_def raw_row.truncate_def)

lemma pickup_zone_app_derive_row: "pickup_zone (app_derive_row t z) = snd z"
  by (simp add: app_derive_row_def)

lemma PULocationID_truncate: "PULocationID (raw_row.truncate t) = PULocationID t"
  by (simp add: raw_row.truncate_def)

lemma concat_map_filter_if:
  "concat (map f (filter P xs)) = concat (map (\<lambda>x. if P x then f x else []) xs)"
  by (induction xs) auto

lemma filter_concat_map: "filter P (concat (map f xs)) = concat (map (\<lambda>x. filter P (f x)) xs)"
  by (induction xs) auto

lemma map_concat_map: "map g (concat (map f xs)) = concat (map (\<lambda>x. map g (f x)) xs)"
  by (induction xs) auto

lemma sidebar_mask_app_derive_row:
  "sidebar_mask start end (hmin, hmax) labels (app_derive_row t z) \<longleftrightarrow>
     (case tpep_pickup_datetime t of None \<Rightarrow> False
      | Some p \<Rightarrow> start \<le> p \<and> p < end \<and> hmin \<le> hour_of p \<and> hour_of p \<le> hmax) \<and>
     payment_label_of (payment_type t) \<in> set labels"
  by (auto simp: sidebar_mask_def app_derive_row_def pd_cmp_def extract_hour_def
      split: option.splits)

lemma cleaning_iff:
  "dropna_subset t \<and> cleaning_mask t \<longleftrightarrow>
     PULocationID t \<noteq> None \<and> DOLocationID t \<noteq> None \<and>
     (case trip_distance t of None \<Rightarrow> False | Some d \<Rightarrow> 0 < d) \<and>
     (case fare_amount t of None \<Rightarrow> False | Some f \<Rightarrow> 0 < f \<and> f \<le> 500) \<and>
     (case tpep_pickup_datetime t of None \<Rightarrow> False
      | Some p \<Rightarrow> (case tpep_dropoff_datetime t of None \<Rightarrow> False | Some d \<Rightarrow> p < d))"
  by (auto simp: dropna_subset_def cleaning_mask_def pd_cmp_def split: option.splits)

lemma per_trip_agreement:
  assumes d: "distinct (map zone.LocationID zones_df)"
    and dol: "DOLocationID t \<noteq> None"
    and labels: "set payment_labels \<subseteq> dom LABEL_TO_CODE"
  shows
    "(if dropna_subset t \<and> cleaning_mask t then
        map derived_row.truncate
          (filter (\<lambda>r. sidebar_mask start end (hmin, hmax) payment_labels r \<and>
                       isin (pickup_zone r) selected_zone_names)
             (map (app_derive_row t) (merge_matches zones_df (PULocationID t))))
      else []) =
     (if spec_predicates start end hmin hmax (resolve_payment_codes payment_labels)
           (Some (resolve_loc_ids zones_df selected_zone_names)) t then
        map (derive_row (raw_row.truncate t)) (merge_matches zones_df (PULocationID t))
      else [])"
proof (cases "PULocationID t")
  case None
  then show ?thesis by (simp add: dropna_subset_def spec_predicates_def)
next
  case (Some i)
  let ?ids = "resolve_loc_ids zones_df selected_zone_names"
  let ?ms = "merge_matches zones_df (Some i)"
  let ?base = "spec_predicates start end hmin hmax (resolve_payment_codes payment_labels) None t"
  have zone: "isin (snd z) selected_zone_names \<longleftrightarrow> i \<in> set ?ids" if "z \<in> set ?ms" for z
    using matched_zone_selected_iff [OF d that] .
  have keep: "filter (\<lambda>r. sidebar_mask start end (hmin, hmax) payment_labels r \<and>
                       isin (pickup_zone r) selected_zone_names)
               (map (app_derive_row t) ?ms) =
             (if sidebar_mask start end (hmin, hmax) payment_labels (app_derive_row t (None, None))
                 \<and> i \<in> set ?ids
              then map (app_derive_row t) ?ms else [])"
  proof -
    have "filter (\<lambda>r. sidebar_mask start end (hmin, hmax) payment_labels r \<and>
                       isin (pickup_zone r) selected_zone_names)
               (map (app_derive_row t) ?ms) =
          map (app_derive_row t)
            (filter (\<lambda>z. sidebar_mask start end (hmin, hmax) payment_labels
                            (app_derive_row t (None, None)) \<and> i \<in> set ?ids) ?ms)"
      unfolding filter_map comp_def
      by (rule arg_cong [where f = "map (app_derive_row t)"], rule filter_cong [OF refl])
         (simp add: sidebar_mask_app_derive_row pickup_zone_app_derive_row zone)
    then show ?thesis by simp
  qed
  have spec: "spec_predicates start end hmin hmax (resolve_payment_codes payment_labels)
                (Some ?ids) t \<longleftrightarrow>
              (dropna_subset t \<and> cleaning_mask t) \<and>
              sidebar_mask start end (hmin, hmax) payment_labels (app_derive_row t (None, None)) \<and>
              i \<in> set ?ids"
    unfolding cleaning_iff using dol Some
    by (auto simp: sidebar_mask_app_derive_row label_selected_iff [OF labels]
        spec_predicates_def split: option.splits)
  show ?thesis
    unfolding Some keep spec
    by (simp add: truncate_app_derive_row comp_def)
qed

lemma resolve_credit_card: "resolve_payment_codes [''Credit Card''] = [1]"
  by (simp add: resolve_payment_codes_def LABEL_TO_CODE_def PAYMENT_MAP_items_def)

lemma credit_card_known: "set [''Credit Card''] \<subseteq> dom LABEL_TO_CODE"
  by (simp add: LABEL_TO_CODE_def PAYMENT_MAP_items_def dom_def)

lemma resolve_jfk:
  "resolve_loc_ids [\<lparr>zone.LocationID = Some 132, Zone = Some ''JFK Airport''\<rparr>] [''JFK Airport'']
     = [132]"
  by (simp add: resolve_loc_ids_def isin_def unique_def)

text \<open>
  C10, as stated, fails. \<open>load_data\<close> drops every trip without a dropoff location
  (\<open>dropna\<close>), while the query of \<open>get_filtered_df\<close> has no condition on that column: a trip
  without a dropoff location that passes every filter is in the result of newapp.py and
  not in that of app.py. The rows of the two programs are compared on the sixteen columns
  they share.
\<close>

theorem pipelines_differ_on_missing_dropoff_location:
  "set [''Credit Card''] \<subseteq> dom LABEL_TO_CODE \<and>
   resolve_loc_ids [\<lparr>zone.LocationID = Some 132, Zone = Some ''JFK Airport''\<rparr>]
     [''JFK Airport''] \<noteq> [] \<and>
   image_mset derived_row.truncate
     (mset (filtered_df
        (load_data [\<lparr>zone.LocationID = Some 132, Zone = Some ''JFK Airport''\<rparr>]
           [\<lparr>tpep_pickup_datetime = Some 3600000000, tpep_dropoff_datetime = Some 4200000000,
             PULocationID = Some 132, DOLocationID = None, trip_distance = Some 2,
             fare_amount = Some 10, tip_amount = Some 0, total_amount = Some 10,
             payment_type = Some 1, trip.passenger_count = Some 1\<rparr>])
        0 86400000000 (0, 23) [''Credit Card''] [''JFK Airport''])) \<noteq>
   mset (rows (fst (get_filtered_df
        [\<lparr>zone.LocationID = Some 132, Zone = Some ''JFK Airport''\<rparr>]
        [\<lparr>tpep_pickup_datetime = Some 3600000000, tpep_dropoff_datetime = Some 4200000000,
          PULocationID = Some 132, DOLocationID = None, trip_distance = Some 2,
          fare_amount = Some 10, tip_amount = Some 0, total_amount = Some 10,
          payment_type = Some 1, trip.passenger_count = Some 1\<rparr>]
        0 86400000000 0 23 [''Credit Card''] [''JFK Airport''])))"
proof -
  have hour: "hour_of 3600000000 = 1" by (simp add: hour_of_def)
  have old: "load_data [\<lparr>zone.LocationID = Some 132, Zone = Some ''JFK Airport''\<rparr>]
           [\<lparr>tpep_pickup_datetime = Some 3600000000, tpep_dropoff_datetime = Some 4200000000,
             PULocationID = Some 132, DOLocationID = None, trip_distance = Some 2,
             fare_amount = Some 10, tip_amount = Some 0, total_amount = Some 10,
             payment_type = Some 1, trip.passenger_count = Some 1\<rparr>] = []"
    by (simp add: load_data_def dropna_subset_def)
  have new: "rows (fst (get_filtered_df
        [\<lparr>zone.LocationID = Some 132, Zone = Some ''JFK Airport''\<rparr>]
        [\<lparr>tpep_pickup_datetime = Some 3600000000, tpep_dropoff_datetime = Some 4200000000,
          PULocationID = Some 132, DOLocationID = None, trip_distance = Some 2,
          fare_amount = Some 10, tip_amount = Some 0, total_amount = Some 10,
          payment_type = Some 1, trip.passenger_count = Some 1\<rparr>]
        0 86400000000 0 23 [''Credit Card''] [''JFK Airport''])) \<noteq> []"
    by (simp add: get_filtered_df_def resolve_credit_card Let_def derive_def duckdb_query_def
        build_query_def zone_filter_def resolve_jfk where_clause_iff spec_predicates_def hour
        merge_matches_def PULocationID_truncate)
  from old new credit_card_known show ?thesis
    by (simp add: resolve_jfk filtered_df_def Let_def)
qed

text \<open>
  The two programs also differ when the zone table lists a location id under two names:
  app.py filters the merged rows by zone name, newapp.py filters the trips by location id
  before the merge.
\<close>

lemma pipelines_differ_on_repeated_zone_id:
  "image_mset derived_row.truncate
     (mset (filtered_df
        (load_data [\<lparr>zone.LocationID = Some 1, Zone = Some ''A''\<rparr>,
                    \<lparr>zone.LocationID = Some 1, Zone = Some ''B''\<rparr>]
           [\<lparr>tpep_pickup_datetime = Some 3600000000, tpep_dropoff_datetime = Some 4200000000,
             PULocationID = Some 1, DOLocationID = Some 2, trip_distance = Some 2,
             fare_amount = Some 10, tip_amount = Some 0, total_amount = Some 10,
             payment_type = Some 1, trip.passenger_count = Some 1\<rparr>])
        0 86400000000 (0, 23) [''Credit Card''] [''A''])) \<noteq>
   mset (rows (fst (get_filtered_df
        [\<lparr>zone.LocationID = Some 1, Zone = Some ''A''\<rparr>,
         \<lparr>zone.LocationID = Some 1, Zone = Some ''B''\<rparr>]
        [\<lparr>tpep_pickup_datetime = Some 3600000000, tpep_dropoff_datetime = Some 4200000000,
          PULocationID = Some 1, DOLocationID = Some 2, trip_distance = Some 2,
          fare_amount = Some 10, tip_amount = Some 0, total_amount = Some 10,
          payment_type = Some 1, trip.passenger_count = Some 1\<rparr>]
        0 86400000000 0 23 [''Credit Card''] [''A''])))"
proof -
  have hour: "hour_of 3600000000 = 1" by (simp add: hour_of_def)
  have ids: "resolve_loc_ids [\<lparr>zone.LocationID = Some 1, Zone = Some ''A''\<rparr>,
                              \<lparr>zone.LocationID = Some 1, Zone = Some ''B''\<rparr>] [''A''] = [1]"
    by (simp add: resolve_loc_ids_def isin_def unique_def)
  have old: "length (filtered_df
        (load_data [\<lparr>zone.LocationID = Some 1, Zone = Some ''A''\<rparr>,
                    \<lparr>zone.LocationID = Some 1, Zone = Some ''B''\<rparr>]
           [\<lparr>tpep_pickup_datetime = Some 3600000000, tpep_dropoff_datetime = Some 4200000000,
             PULocationID = Some 1, DOLocationID = Some 2, trip_distance = Some 2,
             fare_amount = Some 10, tip_amount = Some 0, total_amount = Some 10,
             payment_type = Some 1, trip.passenger_count = Some 1\<rparr>])
        0 86400000000 (0, 23) [''Credit Card''] [''A'']) = 1"
    by (simp add: load_data_def dropna_subset_def cleaning_mask_def pd_cmp_def merge_matches_def
        filtered_df_def Let_def sidebar_mask_app_derive_row pickup_zone_app_derive_row hour
        isin_def payment_label_of_def PAYMENT_MAP_def PAYMENT_MAP_items_def)
  have new: "length (rows (fst (get_filtered_df
        [\<lparr>zone.LocationID = Some 1, Zone = Some ''A''\<rparr>,
         \<lparr>zone.LocationID = Some 1, Zone = Some ''B''\<rparr>]
        [\<lparr>tpep_pickup_datetime = Some 3600000000, tpep_dropoff_datetime = Some 4200000000,
          PULocationID = Some 1, DOLocationID = Some 2, trip_distance = Some 2,
          fare_amount = Some 10, tip_amount = Some 0, total_amount = Some 10,
          payment_type = Some 1, trip.passenger_count = Some 1\<rparr>]
        0 86400000000 0 23 [''Credit Card''] [''A'']))) = 2"
    by (simp add: get_filtered_df_def resolve_credit_card Let_def derive_def duckdb_query_def
        build_query_def zone_filter_def ids where_clause_iff spec_predicates_def hour
        merge_matches_def PULocationID_truncate)
  show ?thesis
  proof
    assume "image_mset derived_row.truncate
     (mset (filtered_df
        (load_data [\<lparr>zone.LocationID = Some 1, Zone = Some ''A''\<rparr>,
                    \<lparr>zone.LocationID = Some 1, Zone = Some ''B''\<rparr>]
           [\<lparr>tpep_pickup_datetime = Some 3600000000, tpep_dropoff_datetime = Some 4200000000,
             PULocationID = Some 1, DOLocationID = Some 2, trip_distance = Some 2,
             fare_amount = Some 10, tip_amount = Some 0, total_amount = Some 10,
             payment_type = Some 1, trip.passenger_count = Some 1\<rparr>])
        0 86400000000 (0, 23) [''Credit Card''] [''A''])) =
   mset (rows (fst (get_filtered_df
        [\<lparr>zone.LocationID = Some 1, Zone = Some ''A''\<rparr>,
         \<lparr>zone.LocationID = Some 1, Zone = Some ''B''\<rparr>]
        [\<lparr>tpep_pickup_datetime = Some 3600000000, tpep_dropoff_datetime = Some 4200000000,
          PULocationID = Some 1, DOLocationID = Some 2, trip_distance = Some 2,
          fare_amount = Some 10, tip_amount = Some 0, total_amount = Some 10,
          payment_type = Some 1, trip.passenger_count = Some 1\<rparr>]
        0 86400000000 0 23 [''Credit Card''] [''A''])))"
    then have "size (image_mset derived_row.truncate
     (mset (filtered_df
        (load_data [\<lparr>zone.LocationID = Some 1, Zone = Some ''A''\<rparr>,
                    \<lparr>zone.LocationID = Some 1, Zone = Some ''B''\<rparr>]
           [\<lparr>tpep_pickup_datetime = Some 3600000000, tpep_dropoff_datetime = Some 4200000000,
             PULocationID = Some 1, DOLocationID = Some 2, trip_distance = Some 2,
             fare_amount = Some 10, tip_amount = Some 0, total_amount = Some 10,
             payment_type = Some 1, trip.passenger_count = Some 1\<rparr>])
        0 86400000000 (0, 23) [''Credit Card''] [''A'']))) =
   size (mset (rows (fst (get_filtered_df
        [\<lparr>zone.LocationID = Some 1, Zone = Some ''A''\<rparr>,
         \<lparr>zone.LocationID = Some 1, Zone = Some ''B''\<rparr>]
        [\<lparr>tpep_pickup_datetime = Some 3600000000, tpep_dropoff_datetime = Some 4200000000,
          PULocationID = Some 1, DOLocationID = Some 2, trip_distance = Some 2,
          fare_amount = Some 10, tip_amount = Some 0, total_amount = Some 10,
          payment_type = Some 1, trip.passenger_count = Some 1\<rparr>]
        0 86400000000 0 23 [''Credit Card''] [''A'']))))"
      by (rule arg_cong)
    with old new show False by simp
  qed
qed

text \<open>
  C10, amended. For every trip file in which every trip has a dropoff location, every zone
  table whose location ids are pairwise distinct, every time window and hour range, every
  selection of payment labels among the six known ones and every selection of zone names
  that resolves to at least one location id, the rows that app.py keeps (cleaning in
  \<open>load_data\<close>, then the sidebar filter) and the rows returned by \<open>get_filtered_df\<close> are the
  same multiset, on the sixteen columns the two programs share.
\<close>

theorem pipelines_agree:
  assumes d: "distinct (map zone.LocationID zones_df)"
    and dol: "\<forall>t \<in> set dataset. DOLocationID t \<noteq> None"
    and labels: "set payment_labels \<subseteq> dom LABEL_TO_CODE"
    and ids: "resolve_loc_ids zones_df selected_zone_names \<noteq> []"
  shows "image_mset derived_row.truncate
           (mset (filtered_df (load_data zones_df dataset) start end (hmin, hmax)
                    payment_labels selected_zone_names)) =
         mset (rows (fst (get_filtered_df zones_df dataset start end hmin hmax
                            payment_labels selected_zone_names)))"
proof (cases "resolve_payment_codes payment_labels = []")
  case True
  have "\<not> sidebar_mask start end (hmin, hmax) payment_labels r" for r
  proof
    assume "sidebar_mask start end (hmin, hmax) payment_labels r"
    then have "payment_label r \<in> set payment_labels" by (simp add: sidebar_mask_def)
    with labels obtain c where "LABEL_TO_CODE (payment_label r) = Some c" by auto
    with \<open>payment_label r \<in> set payment_labels\<close>
    have "c \<in> set (resolve_payment_codes payment_labels)"
      by (auto simp: resolve_payment_codes_def set_map_filter_conv)
    with True show False by simp
  qed
  then have "filtered_df (load_data zones_df dataset) start end (hmin, hmax)
               payment_labels selected_zone_names = []"
    by (simp add: filtered_df_def Let_def)
  with True show ?thesis by (simp add: get_filtered_df_def)
next
  case False
  from ids have names: "selected_zone_names \<noteq> []"
    using resolve_loc_ids_no_names by auto
  let ?ids = "resolve_loc_ids zones_df selected_zone_names"
  let ?spec = "spec_predicates start end hmin hmax (resolve_payment_codes payment_labels)
                 (Some ?ids)"
  have new: "rows (fst (get_filtered_df zones_df dataset start end hmin hmax
                          payment_labels selected_zone_names)) =
             concat (map (\<lambda>t. if ?spec t
                               then map (derive_row (raw_row.truncate t))
                                      (merge_matches zones_df (PULocationID t))
                               else []) dataset)"
    using False names ids
    by (simp add: get_filtered_df_def Let_def derive_def duckdb_query_def where_clause_iff
        build_query_def zone_filter_def comp_def PULocationID_truncate
        concat_map_filter_if)
  have old: "map derived_row.truncate
               (filtered_df (load_data zones_df dataset) start end (hmin, hmax)
                  payment_labels selected_zone_names) =
             concat (map (\<lambda>t. if dropna_subset t \<and> cleaning_mask t then
                                 map derived_row.truncate
                                   (filter (\<lambda>r. sidebar_mask start end (hmin, hmax) payment_labels r \<and>
                                                isin (pickup_zone r) selected_zone_names)
                                      (map (app_derive_row t)
                                         (merge_matches zones_df (PULocationID t))))
                               else []) dataset)"
    using names
    by (simp add: filtered_df_def Let_def load_data_def filter_concat_map map_concat_map
        concat_map_filter_if conj_commute if_distrib [of "map derived_row.truncate"]
        if_distrib [of "filter _"] cong: if_cong)
  have "map derived_row.truncate
          (filtered_df (load_data zones_df dataset) start end (hmin, hmax)
             payment_labels selected_zone_names) =
        rows (fst (get_filtered_df zones_df dataset start end hmin hmax
                     payment_labels selected_zone_names))"
    unfolding new old
    by (rule arg_cong [where f = concat], rule map_cong [OF refl])
       (use dol in \<open>simp add: per_trip_agreement [OF d _ labels]\<close>)
  then show ?thesis by (metis mset_map)
qed

theorem pipelines_agree_witness:
  "distinct (map zone.LocationID [\<lparr>zone.LocationID = Some 132, Zone = Some ''JFK Airport''\<rparr>]) \<and>
   set [''Credit Card''] \<subseteq> dom LABEL_TO_CODE \<and>
   resolve_loc_ids [\<lparr>zone.LocationID = Some 132, Zone = Some ''JFK Airport''\<rparr>]
     [''JFK Airport''] \<noteq> [] \<and>
   image_mset derived_row.truncate
     (mset (filtered_df
        (load_data [\<lparr>zone.LocationID = Some 132, Zone = Some ''JFK Airport''\<rparr>]
           [\<lparr>tpep_pickup_datetime = Some 3600000000, tpep_dropoff_datetime = Some 4200000000,
             PULocationID = Some 132, DOLocationID = Some 7, trip_distance = Some 2,
             fare_amount = Some 10, tip_amount = Some 0, total_amount = Some 10,
             payment_type = Some 1, trip.passenger_count = Some 1\<rparr>])
        0 86400000000 (0, 23) [''Credit Card''] [''JFK Airport''])) =
   mset (rows (fst (get_filtered_df
        [\<lparr>zone.LocationID = Some 132, Zone = Some ''JFK Airport''\<rparr>]
        [\<lparr>tpep_pickup_datetime = Some 3600000000, tpep_dropoff_datetime = Some 4200000000,
          PULocationID = Some 132, DOLocationID = Some 7, trip_distance = Some 2,
          fare_amount = Some 10, tip_amount = Some 0, total_amount = Some 10,
          payment_type = Some 1, trip.passenger_count = Some 1\<rparr>]
        0 86400000000 0 23 [''Credit Card''] [''JFK Airport''])))"
proof -
  have d: "distinct (map zone.LocationID
             [\<lparr>zone.LocationID = Some 132, Zone = Some ''JFK Airport''\<rparr>])"
    by simp
  have dol: "\<forall>t \<in> set [\<lparr>tpep_pickup_datetime = Some 3600000000,
                           tpep_dropoff_datetime = Some 4200000000,
             PULocationID = Some 132, DOLocationID = Some 7, trip_distance = Some (2::real),
             fare_amount = Some (10::real), tip_amount = Some (0::real),
             total_amount = Some (10::real),
             payment_type = Some 1, trip.passenger_count = Some 1\<rparr>]. DOLocationID t \<noteq> None"
    by simp
  have ids: "resolve_loc_ids [\<lparr>zone.LocationID = Some 132, Zone = Some ''JFK Airport''\<rparr>]
               [''JFK Airport''] \<noteq> []"
    by (simp add: resolve_jfk)
  from d credit_card_known ids pipelines_agree [OF d dol credit_card_known ids, of 0 86400000000 0 23]
  show ?thesis by simp
qed

end
